theory Spec2Isabelle
  imports Main "HOL-Library.Word" "HOL-Library.Char_ord" "HOL-Library.List_Lexorder"
begin

section \<open>The Dynamite model layer (Source/Dynamite/Models.h)\<close>

subsection \<open>Values of the wrapped graph library\<close>

text \<open>
  A \<open>Parameter\<close> of the graph library is a handle: copies of it share one block of data
  fields, and the library's hash and equality on variables (the ones
  \<open>unordered_set<Variable>\<close> uses) compare that block's address. The model keeps the
  address only, so HOL's equality on \<open>Parameter\<close> is the library's identity. What
  \<open>Name()\<close> returns for a handle is state of the library; the functions that read it
  take it as the argument \<open>Name\<close>.

  \<open>wstring\<close> is modelled by \<open>string\<close> with the lexicographic order on character codes,
  the order \<open>std::map<wstring, _>\<close> iterates in.
\<close>

datatype Parameter = Parameter (m_dataFields: nat)

type_synonym wstring = string

text \<open>
  The ways a call of this layer stops without a result: \<open>LogicError\<close> (the library's
  exception, with its formatted message), a failed \<open>assert\<close>, a member call through a
  null registry handle, and \<open>front()\<close> of an empty vector.
\<close>

datatype error =
    LogicError string
  | AssertionFailure
  | NullDereference
  | FrontOfEmptyVector

text \<open>\<open>size_t\<close> on a 64-bit platform.\<close>

type_synonym size_t = "64 word"


subsection \<open>std::map as a key-ordered association list\<close>

type_synonym ('k, 'v) std_map = "('k \<times> 'v) list"

text \<open>\<open>map::insert\<close>: the entry goes to its place in key order; a key that is already
  present keeps its old value.\<close>

fun map_insert :: "'k::linorder \<times> 'v \<Rightarrow> ('k, 'v) std_map \<Rightarrow> ('k, 'v) std_map" where
  "map_insert kv [] = [kv]"
| "map_insert kv (e # es) =
     (if fst kv < fst e then kv # e # es
      else if fst kv = fst e then e # es
      else e # map_insert kv es)"

text \<open>\<open>map::find\<close>, with \<open>None\<close> for \<open>end()\<close>.\<close>

definition map_find :: "('k, 'v) std_map \<Rightarrow> 'k \<Rightarrow> 'v option" where
  "map_find m k = map_of m k"

text \<open>A map built from a braced initializer list: the entries are inserted in turn.\<close>

definition map_init :: "('k::linorder \<times> 'v) list \<Rightarrow> ('k, 'v) std_map" where
  "map_init kvs = fold map_insert kvs []"

text \<open>The invariant of a \<open>std::map\<close>: keys strictly increasing.\<close>

definition is_std_map :: "('k::linorder, 'v) std_map \<Rightarrow> bool" where
  "is_std_map m = sorted_wrt (<) (map fst m)"

subsection \<open>ModelParameters\<close>

datatype ModelParameters =
  ModelParameters
    (m_parameters: "(wstring \<times> Parameter) list")
    (m_nestedParameters: "(wstring \<times> ModelParameters) list")

text \<open>A \<open>ModelParametersPtr\<close> is a shared pointer; \<open>None\<close> is the null (empty) pointer.\<close>

type_synonym ModelParametersPtr = "ModelParameters option"

text \<open>The constructor's first loop: every entry whose pointer is not null is inserted.\<close>

fun insert_nested ::
  "(wstring, ModelParametersPtr) std_map \<Rightarrow> (wstring, ModelParameters) std_map
    \<Rightarrow> (wstring, ModelParameters) std_map" where
  "insert_nested [] m = m"
| "insert_nested ((k, None) # kvs) m = insert_nested kvs m"
| "insert_nested ((k, Some r) # kvs) m = insert_nested kvs (map_insert (k, r) m)"

text \<open>The constructor's second loop: it throws at the first parameter with an empty name
  and inserts the others under their names.\<close>

fun insert_parameters ::
  "(Parameter \<Rightarrow> wstring) \<Rightarrow> Parameter list \<Rightarrow> (wstring, Parameter) std_map
    \<Rightarrow> error + (wstring, Parameter) std_map" where
  "insert_parameters Name [] m = Inr m"
| "insert_parameters Name (p # ps) m =
     (if Name p = [] then Inl (LogicError ''parameters must be named'')
      else insert_parameters Name ps (map_insert (Name p, p) m))"

definition new_ModelParameters ::
  "(Parameter \<Rightarrow> wstring) \<Rightarrow> Parameter list \<Rightarrow> (wstring, ModelParametersPtr) std_map
    \<Rightarrow> error + ModelParameters" where
  "new_ModelParameters Name parameters parentParameters =
     (let nested = insert_nested parentParameters []
      in case insert_parameters Name parameters [] of
           Inl e \<Rightarrow> Inl e
         | Inr ps \<Rightarrow> Inr (ModelParameters ps nested))"

definition operator_index :: "ModelParameters \<Rightarrow> wstring \<Rightarrow> error + Parameter" where
  "operator_index r name =
     (case map_find (m_parameters r) name of
        None \<Rightarrow> Inl (LogicError (''no such parameter: '' @ name))
      | Some p \<Rightarrow> Inr p)"

definition Nested :: "ModelParameters \<Rightarrow> wstring \<Rightarrow> error + ModelParameters" where
  "Nested r name =
     (case map_find (m_nestedParameters r) name of
        None \<Rightarrow> Inl (LogicError (''no such captured model: '' @ name))
      | Some n \<Rightarrow> Inr n)"

text \<open>\<open>CollectParameters\<close>: the state is the result vector and the visited set.\<close>

fun collect_level ::
  "(wstring, Parameter) std_map \<Rightarrow> Parameter list \<times> Parameter set
    \<Rightarrow> Parameter list \<times> Parameter set" where
  "collect_level [] s = s"
| "collect_level ((k, p) # kvs) (res, visited) =
     collect_level kvs
       (if p \<in> visited then (res, visited) else (res @ [p], insert p visited))"

fun CollectParameters ::
  "ModelParameters \<Rightarrow> Parameter list \<times> Parameter set \<Rightarrow> Parameter list \<times> Parameter set"
and CollectNested ::
  "(wstring, ModelParameters) std_map \<Rightarrow> Parameter list \<times> Parameter set
    \<Rightarrow> Parameter list \<times> Parameter set" where
  "CollectParameters (ModelParameters ps ns) s = CollectNested ns (collect_level ps s)"
| "CollectNested [] s = s"
| "CollectNested ((k, r) # ns) s = CollectNested ns (CollectParameters r s)"

text \<open>
  \<open>LogParameters\<close>. The state is the library's state and the lines written to the
  diagnostic stream. \<open>AsString\<close> and \<open>DebugUpdateName\<close> belong to the graph library
  and are arguments of the model. The format \<open>"  %-30S : %S\n"\<close> pads the name with
  blanks on the right to 30 characters.
\<close>

definition fprintf_line :: "wstring \<Rightarrow> wstring \<Rightarrow> string" where
  "fprintf_line name str =
     ''  '' @ name @ replicate (30 - length name) (CHR '' '') @ '' : '' @ str @ [CHR 0x0A]"

fun log_level ::
  "('s \<Rightarrow> Parameter \<Rightarrow> wstring) \<Rightarrow> (Parameter \<Rightarrow> wstring \<Rightarrow> 's \<Rightarrow> 's) \<Rightarrow> wstring
    \<Rightarrow> (wstring, Parameter) std_map \<Rightarrow> 's \<times> string list \<Rightarrow> 's \<times> string list" where
  "log_level AsString DebugUpdateName prefix [] s = s"
| "log_level AsString DebugUpdateName prefix ((k, p) # kvs) (lib, err) =
     (let name = prefix @ k
      in log_level AsString DebugUpdateName prefix kvs
           (DebugUpdateName p name lib, err @ [fprintf_line name (AsString lib p)]))"

fun LogParameters ::
  "('s \<Rightarrow> Parameter \<Rightarrow> wstring) \<Rightarrow> (Parameter \<Rightarrow> wstring \<Rightarrow> 's \<Rightarrow> 's)
    \<Rightarrow> ModelParameters \<Rightarrow> wstring \<Rightarrow> 's \<times> string list \<Rightarrow> 's \<times> string list"
and LogNested ::
  "('s \<Rightarrow> Parameter \<Rightarrow> wstring) \<Rightarrow> (Parameter \<Rightarrow> wstring \<Rightarrow> 's \<Rightarrow> 's)
    \<Rightarrow> (wstring, ModelParameters) std_map \<Rightarrow> 's \<times> string list \<Rightarrow> 's \<times> string list" where
  "LogParameters AsString DebugUpdateName (ModelParameters ps ns) prefix s =
     log_level AsString DebugUpdateName prefix ps (LogNested AsString DebugUpdateName ns s)"
| "LogNested AsString DebugUpdateName [] s = s"
| "LogNested AsString DebugUpdateName ((k, r) # ns) s =
     LogNested AsString DebugUpdateName ns
       (LogParameters AsString DebugUpdateName r (k @ ''.'') s)"

text \<open>
  Modelled from the spec: \<open>Parameter::DebugUpdateName\<close> is declared in CNTKLibrary.h,
  which is not part of the sources at hand. The spec says that logging "annotates each
  parameter with its fully qualified debug name"; the library state is modelled as the
  table of these debug names, and the call overwrites the entry of its parameter.
\<close>

definition DebugUpdateName ::
  "Parameter \<Rightarrow> wstring \<Rightarrow> (Parameter \<Rightarrow> wstring option) \<Rightarrow> (Parameter \<Rightarrow> wstring option)" where
  "DebugUpdateName p name lib = lib(p \<mapsto> name)"

subsection \<open>TModel\<close>

text \<open>
  A \<open>TModel<Base>\<close> is a \<open>Base\<close> (the callable) and a \<open>ModelParametersPtr\<close>, whose
  pointer \<open>get()\<close> returns. The constructor from the callable alone leaves the pointer
  null.
\<close>

record 'b TModel =
  Base :: 'b
  get :: ModelParametersPtr

definition TModel_of_Base :: "'b \<Rightarrow> 'b TModel" where
  "TModel_of_Base f = \<lparr>Base = f, get = None\<rparr>"

definition TModel_nested ::
  "(Parameter \<Rightarrow> wstring) \<Rightarrow> Parameter list \<Rightarrow> (wstring, ModelParametersPtr) std_map \<Rightarrow> 'b
    \<Rightarrow> error + 'b TModel" where
  "TModel_nested Name parameters nested f =
     (case new_ModelParameters Name parameters nested of
        Inl e \<Rightarrow> Inl e
      | Inr r \<Rightarrow> Inr \<lparr>Base = f, get = Some r\<rparr>)"

definition TModel_parameters ::
  "(Parameter \<Rightarrow> wstring) \<Rightarrow> Parameter list \<Rightarrow> 'b \<Rightarrow> error + 'b TModel" where
  "TModel_parameters Name parameters f = TModel_nested Name parameters (map_init []) f"

text \<open>\<open>TModel::Parameters\<close>, \<open>TModel::operator[]\<close> and \<open>TModel::Nested\<close> call the
  registry through \<open>get()\<close>.\<close>

definition Parameters :: "'b TModel \<Rightarrow> error + Parameter list" where
  "Parameters m =
     (case get m of
        None \<Rightarrow> Inl NullDereference
      | Some r \<Rightarrow> Inr (fst (CollectParameters r ([], {}))))"

definition TModel_index :: "'b TModel \<Rightarrow> wstring \<Rightarrow> error + Parameter" where
  "TModel_index m name =
     (case get m of None \<Rightarrow> Inl NullDereference | Some r \<Rightarrow> operator_index r name)"

definition TModel_Nested :: "'b TModel \<Rightarrow> wstring \<Rightarrow> error + ModelParameters" where
  "TModel_Nested m name =
     (case get m of None \<Rightarrow> Inl NullDereference | Some r \<Rightarrow> Nested r name)"

text \<open>
  The models' callables. A \<open>Variable\<close> that a model computes is a value of the type
  \<open>'v\<close>. A unary model is a function on them. A binary model can read the process-wide
  index \<open>Batch::CurrentMapIndex()\<close> while it runs, so its callable takes the value of
  the index as its first argument. It does not write the index: the layer is
  single-threaded and the loop is not re-entered from the callable (spec section 5),
  and for a callable that wrote the index the source would not say which element
  \<open>res[i] = f(x[i], y[i])\<close> assigns.

  A sequence model takes its vectors by reference. For the unary one the result
  depends on whether the output vector is the input vector, so the vectors live in a
  store (a vector for every address), the callable takes the addresses of \<open>res\<close> and
  \<open>batch\<close>, and it returns the store as it is afterwards. The callable of the binary
  \<open>Map\<close> takes the output vector as it was and returns it as it is afterwards.
\<close>

type_synonym 'v UnaryModel = "('v \<Rightarrow> 'v) TModel"
type_synonym 'v vectors = "nat \<Rightarrow> 'v list"
type_synonym 'v UnarySequenceModel = "(nat \<Rightarrow> nat \<Rightarrow> 'v vectors \<Rightarrow> 'v vectors) TModel"

subsection \<open>Batch\<close>

text \<open>
  \<open>Batch::Map(UnaryModel)\<close>: \<open>res.clear()\<close>, then one \<open>push_back\<close> to \<open>res\<close> for every
  element of \<open>batch\<close>. The range-based loop runs over the elements \<open>batch\<close> has when
  the loop starts, which is after \<open>res.clear()\<close>: when \<open>res\<close> and \<open>batch\<close> are one vector
  there is none, and otherwise \<open>push_back\<close> to \<open>res\<close> leaves \<open>batch\<close> alone.
\<close>

definition vector_clear :: "nat \<Rightarrow> 'v vectors \<Rightarrow> 'v vectors" where
  "vector_clear a s = s(a := [])"

definition push_back :: "nat \<Rightarrow> 'v \<Rightarrow> 'v vectors \<Rightarrow> 'v vectors" where
  "push_back a v s = s(a := s a @ [v])"

definition Map_unary_body :: "('v \<Rightarrow> 'v) \<Rightarrow> nat \<Rightarrow> nat \<Rightarrow> 'v vectors \<Rightarrow> 'v vectors" where
  "Map_unary_body f res batch s =
     (let s1 = vector_clear res s
      in fold (\<lambda>x s. push_back res (f x) s) (s1 batch) s1)"

definition Map_unary ::
  "(Parameter \<Rightarrow> wstring) \<Rightarrow> 'v UnaryModel \<Rightarrow> error + 'v UnarySequenceModel" where
  "Map_unary Name f =
     TModel_nested Name [] (map_init [(''f'', get f)]) (Map_unary_body (Base f))"








text \<open>
  \<open>CountAPICalls\<close> adds to the global counter and returns it; \<open>Batch::sum\<close> reads the
  shape of \<open>batch.front()\<close> first. \<open>Shape\<close>, \<open>Rank\<close>, \<open>Axis\<close>, \<open>Splice\<close> and
  \<open>ReduceSum\<close> (here with its axis argument \<open>Axis_DropLastAxis\<close>) belong to the graph
  library and are arguments of the model; \<open>(int)\<close> is the conversion to a 32-bit
  signed integer.
\<close>

definition CountAPICalls :: "size_t \<Rightarrow> size_t \<Rightarrow> size_t \<times> size_t" where
  "CountAPICalls n g_numAPICallsSoFar = (g_numAPICallsSoFar + n, g_numAPICallsSoFar + n)"

definition sum_flat ::
  "('v \<Rightarrow> 'shape) \<Rightarrow> ('shape \<Rightarrow> size_t) \<Rightarrow> (int \<Rightarrow> 'axis) \<Rightarrow> ('v list \<Rightarrow> 'axis \<Rightarrow> 'v) \<Rightarrow> ('v \<Rightarrow> 'v)
    \<Rightarrow> 'v list \<Rightarrow> size_t \<Rightarrow> error + ('v \<times> size_t)" where
  "sum_flat Shape Rank Axis Splice ReduceSum_DropLastAxis batch g =
     (case batch of
        [] \<Rightarrow> Inl FrontOfEmptyVector
      | b # _ \<Rightarrow>
          (let shape = Shape b;
               axis = sint (ucast (Rank shape) :: 32 word);
               g' = snd (CountAPICalls 2 g)
           in Inr (ReduceSum_DropLastAxis (Splice batch (Axis axis)), g')))"

definition sum_nested ::
  "('v \<Rightarrow> 'shape) \<Rightarrow> ('shape \<Rightarrow> size_t) \<Rightarrow> (int \<Rightarrow> 'axis) \<Rightarrow> ('v list \<Rightarrow> 'axis \<Rightarrow> 'v) \<Rightarrow> ('v \<Rightarrow> 'v)
    \<Rightarrow> 'v list list \<Rightarrow> size_t \<Rightarrow> error + ('v \<times> size_t)" where
  "sum_nested Shape Rank Axis Splice ReduceSum_DropLastAxis batch g =
     (let allSummands = fold (\<lambda>batchItem acc. fold (\<lambda>seqItem acc. acc @ [seqItem]) batchItem acc) batch []
      in sum_flat Shape Rank Axis Splice ReduceSum_DropLastAxis allSummands g)"

subsection \<open>Composition\<close>

text \<open>\<open>operator>>\<close>: the registry is built from no parameters and the map
  \<open>{{"f", before}, {"g", after}}\<close>; the callable runs \<open>before\<close>, then \<open>after\<close>.\<close>

definition operator_shift ::
  "(Parameter \<Rightarrow> wstring) \<Rightarrow> 'v UnaryModel \<Rightarrow> 'v UnaryModel \<Rightarrow> error + 'v UnaryModel" where
  "operator_shift Name before after =
     TModel_nested Name [] (map_init [(''f'', get before), (''g'', get after)])
       (\<lambda>x. Base after (Base before x))"

subsection \<open>Functions the properties are stated with\<close>

text \<open>
  The parameters reachable from a registry, listed as the spec orders them: the
  parameters of the registry itself in map order, then those of each nested registry,
  recursively, in the order of the nested map. A parameter that several registries
  share occurs once for each of them in this list.
\<close>

fun all_parameters :: "ModelParameters \<Rightarrow> Parameter list"
and all_nested :: "(wstring, ModelParameters) std_map \<Rightarrow> Parameter list" where
  "all_parameters (ModelParameters ps ns) = map snd ps @ all_nested ns"
| "all_nested [] = []"
| "all_nested ((k, r) # ns) = all_parameters r @ all_nested ns"

text \<open>A list cut down to the first occurrence of each of its elements.\<close>

definition first_occurrences :: "'a list \<Rightarrow> 'a list" where
  "first_occurrences xs = rev (remdups (rev xs))"

text \<open>The elements of a list that are new with respect to a set and to what came
  before them in the list.\<close>

fun unseen :: "'a set \<Rightarrow> 'a list \<Rightarrow> 'a list" where
  "unseen V [] = []"
| "unseen V (x # xs) = (if x \<in> V then unseen V xs else x # unseen (insert x V) xs)"

text \<open>The entries of a map of pointers whose pointer is not null, as entries of the
  registries pointed to.\<close>

definition non_null :: "('k \<times> 'a option) list \<Rightarrow> ('k \<times> 'a) list" where
  "non_null kvs = [(k, r). (k, Some r) \<leftarrow> kvs]"

section \<open>The map model\<close>

lemma non_null_simps [simp]:
  "non_null [] = []"
  "non_null ((k, None) # kvs) = non_null kvs"
  "non_null ((k, Some r) # kvs) = (k, r) # non_null kvs"
  by (simp_all add: non_null_def)

lemma set_map_insert: "set (map_insert kv m) \<subseteq> insert kv (set m)"
  by (induction m) auto

lemma fst_set_map_insert: "fst ` set (map_insert kv m) = insert (fst kv) (fst ` set m)"
  by (induction m) auto

lemma is_std_map_insert: "is_std_map m \<Longrightarrow> is_std_map (map_insert kv m)"
  unfolding is_std_map_def
proof (induction m)
  case Nil
  then show ?case by simp
next
  case (Cons e es)
  have "fst e < k" if "k \<in> fst ` set (map_insert kv es)" "\<not> fst kv < fst e" "fst kv \<noteq> fst e" for k
    using that Cons.prems by (auto simp: fst_set_map_insert)
  with Cons show ?case
    by (auto simp: image_iff)
qed

lemma map_of_map_insert:
  "is_std_map m \<Longrightarrow>
   map_of (map_insert kv m) k = (if k = fst kv \<and> map_of m k = None then Some (snd kv) else map_of m k)"
  unfolding is_std_map_def
proof (induction m)
  case Nil
  then show ?case by (cases kv) simp
next
  case (Cons e es)
  then show ?case
    by (cases kv; cases e) (auto simp: map_of_eq_None_iff image_iff dest!: map_of_SomeD)
qed

lemma is_std_map_fold: "is_std_map m \<Longrightarrow> is_std_map (fold map_insert kvs m)"
  by (induction kvs arbitrary: m) (auto simp: is_std_map_insert)

lemma map_of_fold_insert:
  "is_std_map m \<Longrightarrow>
   map_of (fold map_insert kvs m) k = (case map_of m k of Some v \<Rightarrow> Some v | None \<Rightarrow> map_of kvs k)"
proof (induction kvs arbitrary: m)
  case Nil
  then show ?case by (simp split: option.splits)
next
  case (Cons kv kvs)
  then show ?case
    by (cases kv) (auto simp: is_std_map_insert map_of_map_insert split: option.splits)
qed

lemma set_fold_insert: "set (fold map_insert kvs m) \<subseteq> set kvs \<union> set m"
proof (induction kvs arbitrary: m)
  case Nil
  then show ?case by simp
next
  case (Cons kv kvs)
  from Cons [of "map_insert kv m"] set_map_insert [of kv m] show ?case
    by auto
qed

lemma insert_parameters_eq:
  "insert_parameters Name ps m =
     (if \<exists>p\<in>set ps. Name p = [] then Inl (LogicError ''parameters must be named'')
      else Inr (fold map_insert (map (\<lambda>p. (Name p, p)) ps) m))"
  by (induction ps arbitrary: m) auto

lemma insert_nested_eq: "insert_nested kvs m = fold map_insert (non_null kvs) m"
  by (induction kvs m rule: insert_nested.induct) auto

lemma map_of_names: "map_of (map (\<lambda>p. (Name p, p)) ps) n = find (\<lambda>p. Name p = n) ps"
  by (induction ps) auto

lemma map_insert_snoc: "is_std_map (m @ [kv]) \<Longrightarrow> map_insert kv m = m @ [kv]"
  unfolding is_std_map_def
  by (induction m) (auto simp: sorted_wrt_append)

lemma fold_insert_sorted: "is_std_map (m @ kvs) \<Longrightarrow> fold map_insert kvs m = m @ kvs"
proof (induction kvs arbitrary: m)
  case Nil
  then show ?case by simp
next
  case (Cons kv kvs)
  from Cons.prems have "is_std_map (m @ [kv])"
    by (simp add: is_std_map_def sorted_wrt_append)
  then have "map_insert kv m = m @ [kv]"
    by (rule map_insert_snoc)
  with Cons show ?case by simp
qed

lemma set_non_null: "set (non_null kvs) = {(k, r). (k, Some r) \<in> set kvs}"
proof (induction kvs)
  case Nil
  then show ?case by simp
next
  case (Cons kv kvs)
  obtain k v where kv: "kv = (k, v)" by (cases kv)
  show ?case
    using Cons by (cases v) (auto simp: kv)
qed

lemma map_fst_non_null: "map fst (non_null kvs) = map fst (filter (\<lambda>kv. snd kv \<noteq> None) kvs)"
proof (induction kvs)
  case Nil
  then show ?case by simp
next
  case (Cons kv kvs)
  obtain k v where kv: "kv = (k, v)" by (cases kv)
  show ?case
    using Cons by (cases v) (auto simp: kv)
qed

lemma is_std_map_non_null: "is_std_map kvs \<Longrightarrow> is_std_map (non_null kvs)"
  unfolding is_std_map_def map_fst_non_null
  by (induction kvs) auto

lemma new_ModelParameters_eq:
  "new_ModelParameters Name ps parent =
     (if \<exists>p\<in>set ps. Name p = [] then Inl (LogicError ''parameters must be named'')
      else Inr (ModelParameters (map_init (map (\<lambda>p. (Name p, p)) ps)) (map_init (non_null parent))))"
  by (simp add: new_ModelParameters_def insert_parameters_eq insert_nested_eq map_init_def)

lemma is_std_map_Nil: "is_std_map []"
  by (simp add: is_std_map_def)

lemma is_std_map_init: "is_std_map (map_init kvs)"
  by (simp add: map_init_def is_std_map_fold is_std_map_Nil)

lemma map_find_init: "map_find (map_init kvs) k = map_of kvs k"
  by (simp add: map_find_def map_init_def map_of_fold_insert is_std_map_Nil)

lemma set_map_init_subset: "set (map_init kvs) \<subseteq> set kvs"
  using set_fold_insert [of kvs "[]"] by (simp add: map_init_def)

lemma map_init_sorted: "is_std_map kvs \<Longrightarrow> map_init kvs = kvs"
  using fold_insert_sorted [of "[]" kvs] by (simp add: map_init_def)

lemma set_map_init_distinct:
  assumes "distinct (map fst kvs)"
  shows "set (map_init kvs) = set kvs"
proof
  show "set (map_init kvs) \<subseteq> set kvs"
    by (rule set_map_init_subset)
  show "set kvs \<subseteq> set (map_init kvs)"
  proof
    fix kv assume "kv \<in> set kvs"
    then have "map_of kvs (fst kv) = Some (snd kv)"
      using map_of_is_SomeI [OF assms, of "fst kv" "snd kv"] by simp
    then have "map_of (map_init kvs) (fst kv) = Some (snd kv)"
      using map_find_init [of kvs "fst kv"] by (simp add: map_find_def)
    then show "kv \<in> set (map_init kvs)"
      using map_of_SomeD [of "map_init kvs" "fst kv" "snd kv"] by simp
  qed
qed

section \<open>Construction of a registry\<close>

text \<open>
  C5, as the code has it. The constructor reports the logic error "parameters must be
  named" when some parameter of the list has an empty name. When no name is empty it
  succeeds, whether or not two parameters share a name: looking a name up in the
  constructed map gives the first parameter of the list with that name, and a later
  one with the same name is not inserted. For pairwise distinct names the map holds
  every parameter of the list under its name, and nothing else.
\<close>

theorem new_ModelParameters_naming:
  "((\<exists>p\<in>set parameters. Name p = []) \<longrightarrow>
      new_ModelParameters Name parameters parentParameters
        = Inl (LogicError ''parameters must be named''))
   \<and> ((\<forall>p\<in>set parameters. Name p \<noteq> []) \<longrightarrow>
        (\<exists>r. new_ModelParameters Name parameters parentParameters = Inr r
           \<and> is_std_map (m_parameters r)
           \<and> (\<forall>n. map_find (m_parameters r) n = find (\<lambda>p. Name p = n) parameters)
           \<and> (distinct (map Name parameters) \<longrightarrow>
                set (m_parameters r) = (\<lambda>p. (Name p, p)) ` set parameters)))"
proof -
  have "set (map_init (map (\<lambda>p. (Name p, p)) parameters)) = (\<lambda>p. (Name p, p)) ` set parameters"
    if "distinct (map Name parameters)"
    using that set_map_init_distinct [of "map (\<lambda>p. (Name p, p)) parameters"]
    by (simp add: comp_def)
  then show ?thesis
    by (auto simp: new_ModelParameters_eq is_std_map_init map_find_init map_of_names)
qed

text \<open>The list 0, 1 with the name of 1 empty fails; the list 1, 0 with the names
  \<open>b\<close> and \<open>W\<close> gives the map with both.\<close>

theorem new_ModelParameters_naming_witness:
  "new_ModelParameters (\<lambda>p. if p = Parameter 1 then [] else ''W'') [Parameter 0, Parameter 1] []
      = Inl (LogicError ''parameters must be named'')
   \<and> (\<exists>r. new_ModelParameters (\<lambda>p. if p = Parameter 1 then ''b'' else ''W'')
             [Parameter 1, Parameter 0] [] = Inr r
          \<and> set (m_parameters r) = {(''b'', Parameter 1), (''W'', Parameter 0)})"
proof -
  let ?N1 = "\<lambda>p. if p = Parameter 1 then [] else ''W''"
  let ?N2 = "\<lambda>p. if p = Parameter 1 then ''b'' else ''W''"
  have a: "\<exists>p\<in>set [Parameter 0, Parameter 1]. ?N1 p = []"
    by simp
  have b: "\<forall>p\<in>set [Parameter 1, Parameter 0]. ?N2 p \<noteq> []"
    by simp
  have c: "distinct (map ?N2 [Parameter 1, Parameter 0])"
    by simp
  from a new_ModelParameters_naming [of "[Parameter 0, Parameter 1]" ?N1 "[]"]
  have 1: "new_ModelParameters ?N1 [Parameter 0, Parameter 1] []
      = Inl (LogicError ''parameters must be named'')"
    by blast
  from b c new_ModelParameters_naming [of "[Parameter 1, Parameter 0]" ?N2 "[]"]
  have "\<exists>r. new_ModelParameters ?N2 [Parameter 1, Parameter 0] [] = Inr r
      \<and> set (m_parameters r) = (\<lambda>p. (?N2 p, p)) ` set [Parameter 1, Parameter 0]"
    by blast
  then have 2: "\<exists>r. new_ModelParameters ?N2 [Parameter 1, Parameter 0] [] = Inr r
      \<and> set (m_parameters r) = {(''b'', Parameter 1), (''W'', Parameter 0)}"
    by simp
  from 1 2 show ?thesis
    by (rule conjI)
qed

text \<open>Two different parameters, both named \<open>W\<close>: the construction succeeds, and the map
  holds the first of them.\<close>

theorem duplicate_name_is_accepted:
  "new_ModelParameters (\<lambda>p. ''W'') [Parameter 1, Parameter 2] []
     = Inr (ModelParameters [(''W'', Parameter 1)] [])"
  by (simp add: new_ModelParameters_def)

text \<open>
  C6, as the code has it. Of the entries of the nested map given to the constructor,
  exactly those with a null pointer are left out; every other entry is in the
  constructed registry's nested map under its name, also when the registry it points
  to has no parameter and no nested registry.
\<close>

theorem new_ModelParameters_drops_null_only:
  assumes "is_std_map parentParameters"
    and "new_ModelParameters Name parameters parentParameters = Inr r"
  shows "m_nestedParameters r = non_null parentParameters
    \<and> set (m_nestedParameters r) = {(k, n). (k, Some n) \<in> set parentParameters}"
  using assms
  by (auto simp: new_ModelParameters_eq map_init_sorted is_std_map_non_null set_non_null
      split: if_splits)

theorem new_ModelParameters_drops_null_only_witness:
  "is_std_map [(''f'', Some (ModelParameters [] [])), (''g'', None)]
   \<and> new_ModelParameters (\<lambda>p. ''W'') [] [(''f'', Some (ModelParameters [] [])), (''g'', None)]
       = Inr (ModelParameters [] [(''f'', ModelParameters [] [])])
   \<and> m_nestedParameters (ModelParameters [] [(''f'', ModelParameters [] [])])
       = non_null [(''f'', Some (ModelParameters [] [])), (''g'', None)]"
proof -
  let ?parent = "[(''f'', Some (ModelParameters [] [])), (''g'', None)]"
  have a: "is_std_map ?parent"
    by (simp add: is_std_map_def)
  have b: "new_ModelParameters (\<lambda>p. ''W'') [] ?parent
      = Inr (ModelParameters [] [(''f'', ModelParameters [] [])])"
    by (simp add: new_ModelParameters_def)
  from new_ModelParameters_drops_null_only [OF a b] a b show ?thesis
    by blast
qed

text \<open>A nested entry \<open>f\<close> whose registry has no parameter and no nested registry is
  kept.\<close>

theorem empty_nested_registry_is_kept:
  "new_ModelParameters (\<lambda>p. ''W'') [] [(''f'', Some (ModelParameters [] []))]
     = Inr (ModelParameters [] [(''f'', ModelParameters [] [])])"
  by (simp add: new_ModelParameters_def)

section \<open>Lookup by name\<close>

text \<open>
  C7. In a registry that the constructor built, \<open>operator[]\<close> of a name that no
  parameter of the list has reports the logic error "no such parameter", and of a name
  that is present returns the parameter that was inserted under it (the first of the
  list with that name), as the same handle. \<open>Nested\<close> of a name reports the logic error
  "no such captured model" unless the nested map given to the constructor has a
  non-null entry of that name, and then returns the registry of that entry.
\<close>

theorem lookup_by_name:
  assumes "new_ModelParameters Name parameters parentParameters = Inr r"
  shows "operator_index r name =
      (case find (\<lambda>p. Name p = name) parameters of
         None \<Rightarrow> Inl (LogicError (''no such parameter: '' @ name))
       | Some p \<Rightarrow> Inr p)
    \<and> Nested r name =
      (case map_of (non_null parentParameters) name of
         None \<Rightarrow> Inl (LogicError (''no such captured model: '' @ name))
       | Some n \<Rightarrow> Inr n)"
  using assms
  by (auto simp: new_ModelParameters_eq operator_index_def Nested_def map_find_init map_of_names
      split: if_splits)

theorem lookup_by_name_witness:
  "new_ModelParameters (\<lambda>p. if p = Parameter 1 then ''b'' else ''W'') [Parameter 1, Parameter 0]
      [(''f'', Some (ModelParameters [] [])), (''g'', None)]
     = Inr (ModelParameters [(''W'', Parameter 0), (''b'', Parameter 1)]
             [(''f'', ModelParameters [] [])])
   \<and> operator_index (ModelParameters [(''W'', Parameter 0), (''b'', Parameter 1)]
             [(''f'', ModelParameters [] [])]) ''b'' = Inr (Parameter 1)
   \<and> operator_index (ModelParameters [(''W'', Parameter 0), (''b'', Parameter 1)]
             [(''f'', ModelParameters [] [])]) ''c'' = Inl (LogicError ''no such parameter: c'')
   \<and> Nested (ModelParameters [(''W'', Parameter 0), (''b'', Parameter 1)]
             [(''f'', ModelParameters [] [])]) ''f'' = Inr (ModelParameters [] [])
   \<and> Nested (ModelParameters [(''W'', Parameter 0), (''b'', Parameter 1)]
             [(''f'', ModelParameters [] [])]) ''g'' = Inl (LogicError ''no such captured model: g'')"
proof -
  let ?N = "\<lambda>p. if p = Parameter 1 then ''b'' else ''W''"
  let ?parent = "[(''f'', Some (ModelParameters [] [])), (''g'', None)]"
  let ?r = "ModelParameters [(''W'', Parameter 0), (''b'', Parameter 1)]
             [(''f'', ModelParameters [] [])]"
  have a: "new_ModelParameters ?N [Parameter 1, Parameter 0] ?parent = Inr ?r"
    by (simp add: new_ModelParameters_def)
  from lookup_by_name [OF a, of "''b''"] lookup_by_name [OF a, of "''c''"]
    lookup_by_name [OF a, of "''f''"] lookup_by_name [OF a, of "''g''"] a
  show ?thesis
    by simp
qed

section \<open>Recursive collection of parameters\<close>

lemma unseen_append: "unseen V (xs @ ys) = unseen V xs @ unseen (V \<union> set xs) ys"
  by (induction xs arbitrary: V) (auto simp: insert_absorb)

lemma collect_level_eq:
  "collect_level ps (res, V) = (res @ unseen V (map snd ps), V \<union> snd ` set ps)"
  by (induction ps arbitrary: res V) auto

lemma Collect_eq:
  "CollectParameters r (res, V) = (res @ unseen V (all_parameters r), V \<union> set (all_parameters r))"
  "CollectNested ns (res, V) = (res @ unseen V (all_nested ns), V \<union> set (all_nested ns))"
proof (induction r "(res, V)" and ns "(res, V)" arbitrary: res V and res V
    rule: CollectParameters_CollectNested.induct)
  case (1 ps ns)
  then show ?case
    by (simp add: collect_level_eq unseen_append Un_assoc)
next
  case 2
  then show ?case by simp
next
  case (3 k r ns)
  then show ?case
    by (simp add: unseen_append Un_assoc)
qed

lemma remdups_snoc: "remdups (ys @ [x]) = removeAll x (remdups ys) @ [x]"
  by (induction ys) auto

lemma first_occurrences_Cons:
  "first_occurrences (x # xs) = x # removeAll x (first_occurrences xs)"
  by (simp add: first_occurrences_def remdups_snoc removeAll_filter_not_eq rev_filter)

lemma unseen_filter: "unseen V xs = filter (\<lambda>y. y \<notin> V) (first_occurrences xs)"
proof (induction xs arbitrary: V)
  case Nil
  then show ?case by (simp add: first_occurrences_def)
next
  case (Cons x xs)
  show ?case
    by (auto simp: Cons first_occurrences_Cons removeAll_filter_not_eq intro!: filter_cong)
qed

lemma unseen_empty: "unseen {} xs = first_occurrences xs"
  by (simp add: unseen_filter)

lemma Parameters_eq:
  "Parameters \<lparr>Base = f, get = Some r\<rparr> = Inr (first_occurrences (all_parameters r))"
  by (simp add: Parameters_def Collect_eq unseen_empty)

lemma distinct_first_occurrences: "distinct (first_occurrences xs)"
  by (simp add: first_occurrences_def)

lemma set_first_occurrences: "set (first_occurrences xs) = set xs"
  by (simp add: first_occurrences_def)

text \<open>
  C1. For every registry \<open>r\<close>, \<open>TModel::Parameters\<close> of a model that holds \<open>r\<close>
  returns a list without repetition (by identity) whose elements are exactly the
  parameters reachable from \<open>r\<close>, in the order of their first occurrence in the listing
  "own parameters in map order, then each nested registry recursively in nested-map
  order", whatever is shared between the nested registries. In a registry that the
  constructor built, both maps are in key order.
\<close>

theorem Parameters_collects_each_once:
  "(\<exists>res. Parameters \<lparr>Base = f, get = Some r\<rparr> = Inr res
      \<and> distinct res
      \<and> set res = set (all_parameters r)
      \<and> res = first_occurrences (all_parameters r))
   \<and> (new_ModelParameters Name parameters parentParameters = Inr r \<longrightarrow>
        is_std_map (m_parameters r) \<and> is_std_map (m_nestedParameters r))"
  by (auto simp: Parameters_eq distinct_first_occurrences set_first_occurrences
      new_ModelParameters_eq is_std_map_init split: if_splits)

text \<open>A registry built with the parameter 1 of its own, and one registry with the
  parameters 1 and 2 nested twice, as \<open>a\<close> and as \<open>b\<close>: the result is 1, 2.\<close>

theorem Parameters_collects_each_once_witness:
  "new_ModelParameters (\<lambda>p. ''W'') [Parameter 1]
      [(''a'', Some (ModelParameters [(''W'', Parameter 1), (''b'', Parameter 2)] [])),
       (''b'', Some (ModelParameters [(''W'', Parameter 1), (''b'', Parameter 2)] []))]
     = Inr (ModelParameters [(''W'', Parameter 1)]
        [(''a'', ModelParameters [(''W'', Parameter 1), (''b'', Parameter 2)] []),
         (''b'', ModelParameters [(''W'', Parameter 1), (''b'', Parameter 2)] [])])
   \<and> Parameters \<lparr>Base = (), get = Some
      (ModelParameters [(''W'', Parameter 1)]
        [(''a'', ModelParameters [(''W'', Parameter 1), (''b'', Parameter 2)] []),
         (''b'', ModelParameters [(''W'', Parameter 1), (''b'', Parameter 2)] [])])\<rparr>
    = Inr [Parameter 1, Parameter 2]
   \<and> is_std_map (m_nestedParameters
      (ModelParameters [(''W'', Parameter 1)]
        [(''a'', ModelParameters [(''W'', Parameter 1), (''b'', Parameter 2)] []),
         (''b'', ModelParameters [(''W'', Parameter 1), (''b'', Parameter 2)] [])]))"
proof -
  let ?sub = "ModelParameters [(''W'', Parameter 1), (''b'', Parameter 2)] []"
  let ?r = "ModelParameters [(''W'', Parameter 1)] [(''a'', ?sub), (''b'', ?sub)]"
  have built: "new_ModelParameters (\<lambda>p. ''W'') [Parameter 1]
      [(''a'', Some ?sub), (''b'', Some ?sub)] = Inr ?r"
    by (simp add: new_ModelParameters_def)
  have "first_occurrences (all_parameters ?r) = [Parameter 1, Parameter 2]"
    by (simp add: first_occurrences_def)
  with built Parameters_collects_each_once
    [of "()" ?r "\<lambda>p. ''W''" "[Parameter 1]" "[(''a'', Some ?sub), (''b'', Some ?sub)]"]
  show ?thesis
    by simp
qed

section \<open>Batch::Map\<close>

lemma push_back_fold:
  "fold (\<lambda>x s. push_back res (f x) s) xs s = s(res := s res @ map f xs)"
  by (induction xs arbitrary: s) (simp_all add: push_back_def)

lemma Map_unary_body_eq:
  "Map_unary_body f res batch s =
     (if res = batch then s(res := []) else s(res := map f (s batch)))"
  by (simp add: Map_unary_body_def vector_clear_def push_back_fold Let_def)

lemma TModel_nested_no_parameters:
  "TModel_nested Name [] nested f
     = Inr \<lparr>Base = f, get = Some (ModelParameters [] (map_init (non_null nested)))\<rparr>"
  by (simp add: TModel_nested_def new_ModelParameters_eq map_init_def)

text \<open>
  C3, as the code has it. \<open>Batch::Map\<close> of a unary model \<open>f\<close> is built without
  error. Its callable, applied to an output vector \<open>res\<close> of any contents and an input
  sequence \<open>batch\<close> of any length (also 0) that is another vector than \<open>res\<close>, leaves
  in \<open>res\<close> a sequence of the input's length whose element \<open>i\<close> is \<open>f\<close> of the input's
  element \<open>i\<close> (the input mapped through \<open>f\<close>), and leaves every other vector, the
  input among them, as it was. When \<open>res\<close> is the input vector itself, the call leaves
  it empty.
\<close>

theorem Map_unary_elementwise:
  "\<exists>m. Map_unary Name f = Inr m
     \<and> (\<forall>res batch s.
          (res \<noteq> batch \<longrightarrow>
             Base m res batch s res = map (Base f) (s batch)
             \<and> length (Base m res batch s res) = length (s batch)
             \<and> (\<forall>i<length (s batch). Base m res batch s res ! i = Base f (s batch ! i))
             \<and> (\<forall>a. a \<noteq> res \<longrightarrow> Base m res batch s a = s a))
          \<and> (res = batch \<longrightarrow> Base m res batch s = s(res := [])))"
  by (simp add: Map_unary_def TModel_nested_no_parameters Map_unary_body_eq)

text \<open>The vector 0 holds 7, the vector 1 holds 10, 20, 30 and the vector 2 is empty.
  Mapping \<open>Suc\<close> from 1 to 0 leaves 11, 21, 31 in 0 and 1 as it was; from 2 to 0 it
  leaves 0 empty; from 1 to 1 it leaves 1 empty.\<close>

theorem Map_unary_elementwise_witness:
  "\<exists>m. Map_unary (\<lambda>p. ''W'') (TModel_of_Base Suc) = Inr m
     \<and> Base m 0 1 ((\<lambda>a. [])(0 := [7], 1 := [10, 20, 30])) 0 = [11, 21, 31]
     \<and> length (Base m 0 1 ((\<lambda>a. [])(0 := [7], 1 := [10, 20, 30])) 0) = 3
     \<and> Base m 0 1 ((\<lambda>a. [])(0 := [7], 1 := [10, 20, 30])) 0 ! 2 = 31
     \<and> Base m 0 1 ((\<lambda>a. [])(0 := [7], 1 := [10, 20, 30])) 1 = [10, 20, 30]
     \<and> Base m 0 2 ((\<lambda>a. [])(0 := [7], 1 := [10, 20, 30])) 0 = []
     \<and> Base m 1 1 ((\<lambda>a. [])(0 := [7], 1 := [10, 20, 30])) 1 = []"
proof -
  let ?f = "TModel_of_Base Suc"
  let ?s = "(\<lambda>a. [])(0 := [7], 1 := [10, 20, 30 :: nat])"
  have f: "Base ?f = Suc"
    by (simp add: TModel_of_Base_def)
  from Map_unary_elementwise [of "\<lambda>p. ''W''" ?f]
  obtain m where m: "Map_unary (\<lambda>p. ''W'') ?f = Inr m"
    and r: "\<And>res batch s.
          (res \<noteq> batch \<longrightarrow>
             Base m res batch s res = map (Base ?f) (s batch)
             \<and> length (Base m res batch s res) = length (s batch)
             \<and> (\<forall>i<length (s batch). Base m res batch s res ! i = Base ?f (s batch ! i))
             \<and> (\<forall>a. a \<noteq> res \<longrightarrow> Base m res batch s a = s a))
          \<and> (res = batch \<longrightarrow> Base m res batch s = s(res := []))"
    by blast
  from r [of 0 1 ?s] have 1: "Base m 0 1 ?s 0 = [11, 21, 31]" "Base m 0 1 ?s 1 = [10, 20, 30]"
    by (simp_all add: f)
  from r [of 0 2 ?s] have 2: "Base m 0 2 ?s 0 = []"
    by (simp add: f)
  from r [of 1 1 ?s] have 3: "Base m 1 1 ?s 1 = []"
    by simp
  from m 1 2 3 show ?thesis
    by (intro exI [of _ m]) simp
qed

text \<open>The output vector is the input vector, which holds 10, 20, 30: the call leaves
  it empty, of length 0 and not 3.\<close>

theorem Map_unary_on_its_own_input:
  "Map_unary (\<lambda>p. ''W'') (TModel_of_Base Suc)
     = Inr \<lparr>Base = Map_unary_body Suc, get = Some (ModelParameters [] [])\<rparr>
   \<and> Map_unary_body Suc 0 0 ((\<lambda>a. [])(0 := [10, 20, 30])) 0 = []
   \<and> length (((\<lambda>a. [])(0 := [10, 20, 30 :: nat])) 0) = 3"
  by (simp add: Map_unary_def TModel_nested_def new_ModelParameters_def map_init_def
      TModel_of_Base_def Map_unary_body_def vector_clear_def)












section \<open>Batch::sum\<close>

lemma fold_push_back_all: "fold (\<lambda>seqItem acc. acc @ [seqItem]) batchItem acc = acc @ batchItem"
  by (induction batchItem arbitrary: acc) auto

lemma allSummands_eq:
  "fold (\<lambda>batchItem acc. fold (\<lambda>seqItem acc. acc @ [seqItem]) batchItem acc) batch acc
     = acc @ concat batch"
  by (induction batch arbitrary: acc) (auto simp: fold_push_back_all)

text \<open>
  C10. \<open>Batch::sum\<close> over a flat sequence takes \<open>front()\<close> of an empty vector exactly
  when the sequence is empty; for a non-empty sequence it returns the reduced splice
  along the axis after the rank of the first element's shape, and counts two API
  calls. The overload for nested sequences is the flat \<open>sum\<close> of the concatenation of
  the inner sequences, so it takes \<open>front()\<close> of an empty vector exactly when every
  inner sequence is empty.
\<close>

theorem sum_front_of_empty:
  "(sum_flat Shape Rank Axis Splice ReduceSum_DropLastAxis batch g = Inl FrontOfEmptyVector
      \<longleftrightarrow> batch = [])
   \<and> (batch \<noteq> [] \<longrightarrow>
        sum_flat Shape Rank Axis Splice ReduceSum_DropLastAxis batch g
          = Inr (ReduceSum_DropLastAxis
                   (Splice batch (Axis (sint (ucast (Rank (Shape (hd batch))) :: 32 word)))),
                 g + 2))
   \<and> sum_nested Shape Rank Axis Splice ReduceSum_DropLastAxis batches g
        = sum_flat Shape Rank Axis Splice ReduceSum_DropLastAxis (concat batches) g
   \<and> (sum_nested Shape Rank Axis Splice ReduceSum_DropLastAxis batches g = Inl FrontOfEmptyVector
        \<longleftrightarrow> (\<forall>batchItem\<in>set batches. batchItem = []))"
proof -
  have flat: "sum_flat Shape Rank Axis Splice ReduceSum_DropLastAxis b g = Inl FrontOfEmptyVector
      \<longleftrightarrow> b = []" for b
    by (simp add: sum_flat_def Let_def split: list.splits)
  have nested: "sum_nested Shape Rank Axis Splice ReduceSum_DropLastAxis batches g
        = sum_flat Shape Rank Axis Splice ReduceSum_DropLastAxis (concat batches) g"
    using allSummands_eq [of batches "[]"] by (simp add: sum_nested_def)
  show ?thesis
    unfolding nested flat
    by (auto simp: sum_flat_def Let_def CountAPICalls_def split: list.splits)
qed

theorem sum_front_of_empty_witness:
  "sum_flat (\<lambda>v. ()) (\<lambda>s. 1) (\<lambda>a. a) (\<lambda>vs a. sum_list vs) (\<lambda>v. v) ([] :: nat list) 0 = Inl FrontOfEmptyVector
   \<and> sum_flat (\<lambda>v. ()) (\<lambda>s. 1) (\<lambda>a. a) (\<lambda>vs a. sum_list vs) (\<lambda>v. v) [1, 2, 3 :: nat] 0 = Inr (6, 2)
   \<and> sum_nested (\<lambda>v. ()) (\<lambda>s. 1) (\<lambda>a. a) (\<lambda>vs a. sum_list vs) (\<lambda>v. v) ([[], []] :: nat list list) 0
       = Inl FrontOfEmptyVector
   \<and> sum_nested (\<lambda>v. ()) (\<lambda>s. 1) (\<lambda>a. a) (\<lambda>vs a. sum_list vs) (\<lambda>v. v) [[], [1, 2 :: nat], [3]] 0
       = Inr (6, 2)"
proof -
  note a = sum_front_of_empty [of "\<lambda>v. ()" "\<lambda>s. 1" "\<lambda>a. a" "\<lambda>vs a. sum_list vs" "\<lambda>v. v" "[] :: nat list" 0 "[[], []]"]
  note b = sum_front_of_empty [of "\<lambda>v. ()" "\<lambda>s. 1" "\<lambda>a. a" "\<lambda>vs a. sum_list vs" "\<lambda>v. v" "[1, 2, 3 :: nat]" 0
      "[[], [1, 2], [3]]"]
  from a have 1: "sum_flat (\<lambda>v. ()) (\<lambda>s. 1) (\<lambda>a. a) (\<lambda>vs a. sum_list vs) (\<lambda>v. v) ([] :: nat list) 0
      = Inl FrontOfEmptyVector"
    by simp
  from a have 3: "sum_nested (\<lambda>v. ()) (\<lambda>s. 1) (\<lambda>a. a) (\<lambda>vs a. sum_list vs) (\<lambda>v. v) ([[], []] :: nat list list) 0
       = Inl FrontOfEmptyVector"
    by simp
  from b have 2: "sum_flat (\<lambda>v. ()) (\<lambda>s. 1) (\<lambda>a. a) (\<lambda>vs a. sum_list vs) (\<lambda>v. v) [1, 2, 3 :: nat] 0 = Inr (6, 2)"
    by simp
  from b have 4: "sum_nested (\<lambda>v. ()) (\<lambda>s. 1) (\<lambda>a. a) (\<lambda>vs a. sum_list vs) (\<lambda>v. v) [[], [1, 2 :: nat], [3]] 0
       = Inr (6, 2)"
    by simp
  from 1 2 3 4 show ?thesis
    by simp
qed

section \<open>Composition\<close>

lemma Parameters_Some:
  "get m = Some r \<Longrightarrow> Parameters m = Inr (first_occurrences (all_parameters r))"
  by (simp add: Parameters_def Collect_eq unseen_empty)

lemma operator_shift_eq:
  "operator_shift Name before after =
     Inr \<lparr>Base = \<lambda>x. Base after (Base before x),
          get = Some (ModelParameters [] (non_null [(''f'', get before), (''g'', get after)]))\<rparr>"
proof -
  have "map_init (non_null (map_init [(''f'', get before), (''g'', get after)]))
      = non_null [(''f'', get before), (''g'', get after)]"
    by (cases "get before"; cases "get after") (simp_all add: map_init_def)
  then show ?thesis
    by (simp add: operator_shift_def TModel_nested_no_parameters)
qed

text \<open>
  C2, as the code has it. \<open>a >> b\<close> is built without error, and applied to \<open>x\<close> it
  is \<open>b(a(x))\<close>. Its registry has no parameters of its own, and its nested map holds
  the registry of \<open>a\<close> as \<open>f\<close> and that of \<open>b\<close> as \<open>g\<close>, each only if the model's
  registry pointer is not null. When both pointers are not null, \<open>Nested\<close> of \<open>f\<close> and
  \<open>g\<close> return the two registries, and the parameters collected from the composed model
  are, as a set, those collected from \<open>a\<close> together with those collected from \<open>b\<close>.
\<close>

theorem composition_law:
  "\<exists>m. operator_shift Name a b = Inr m
     \<and> (\<forall>x. Base m x = Base b (Base a x))
     \<and> get m = Some (ModelParameters [] (non_null [(''f'', get a), (''g'', get b)]))
     \<and> (\<forall>ra rb. get a = Some ra \<and> get b = Some rb \<longrightarrow>
          TModel_Nested m ''f'' = Inr ra \<and> TModel_Nested m ''g'' = Inr rb
          \<and> (\<exists>ps pa pb. Parameters m = Inr ps \<and> Parameters a = Inr pa \<and> Parameters b = Inr pb
                \<and> set ps = set pa \<union> set pb))"
  by (auto simp: operator_shift_eq Parameters_Some set_first_occurrences TModel_Nested_def
      Nested_def map_find_def)

theorem composition_law_witness:
  "\<exists>m. operator_shift (\<lambda>p. ''W'')
          \<lparr>Base = Suc, get = Some (ModelParameters [(''W'', Parameter 1)] [])\<rparr>
          \<lparr>Base = (*) 2, get = Some (ModelParameters [(''W'', Parameter 2)] [])\<rparr> = Inr m
     \<and> Base m 3 = 8
     \<and> TModel_Nested m ''f'' = Inr (ModelParameters [(''W'', Parameter 1)] [])
     \<and> TModel_Nested m ''g'' = Inr (ModelParameters [(''W'', Parameter 2)] [])
     \<and> (\<exists>ps pa pb. Parameters m = Inr ps
           \<and> Parameters \<lparr>Base = Suc, get = Some (ModelParameters [(''W'', Parameter 1)] [])\<rparr> = Inr pa
           \<and> Parameters \<lparr>Base = (*) (2 :: nat), get = Some (ModelParameters [(''W'', Parameter 2)] [])\<rparr> = Inr pb
           \<and> set ps = set pa \<union> set pb)"
proof -
  let ?a = "\<lparr>Base = Suc, get = Some (ModelParameters [(''W'', Parameter 1)] [])\<rparr>"
  let ?b = "\<lparr>Base = (*) (2 :: nat), get = Some (ModelParameters [(''W'', Parameter 2)] [])\<rparr>"
  from composition_law [of "\<lambda>p. ''W''" ?a ?b]
  obtain m where m: "operator_shift (\<lambda>p. ''W'') ?a ?b = Inr m"
    and call: "\<forall>x. Base m x = Base ?b (Base ?a x)"
    and rest: "\<forall>ra rb. get ?a = Some ra \<and> get ?b = Some rb \<longrightarrow>
          TModel_Nested m ''f'' = Inr ra \<and> TModel_Nested m ''g'' = Inr rb
          \<and> (\<exists>ps pa pb. Parameters m = Inr ps \<and> Parameters ?a = Inr pa \<and> Parameters ?b = Inr pb
                \<and> set ps = set pa \<union> set pb)"
    by blast
  from call have "Base m 3 = 8"
    by simp
  moreover from rest have "TModel_Nested m ''f'' = Inr (ModelParameters [(''W'', Parameter 1)] [])
     \<and> TModel_Nested m ''g'' = Inr (ModelParameters [(''W'', Parameter 2)] [])
     \<and> (\<exists>ps pa pb. Parameters m = Inr ps \<and> Parameters ?a = Inr pa \<and> Parameters ?b = Inr pb
                \<and> set ps = set pa \<union> set pb)"
    by simp
  ultimately show ?thesis
    using m by blast
qed

text \<open>A model made from a callable alone has the null pointer. Composed with a model
  that was made with the parameter \<open>W\<close>, it gets no entry \<open>f\<close> in the nested map, so
  \<open>Nested\<close> of \<open>f\<close> reports the logic error, and collecting its own parameters is a call
  through the null pointer.\<close>

theorem composition_of_bare_callable:
  "TModel_parameters (\<lambda>p. ''W'') [Parameter 1] Suc
     = Inr \<lparr>Base = Suc, get = Some (ModelParameters [(''W'', Parameter 1)] [])\<rparr>
   \<and> operator_shift (\<lambda>p. ''W'') (TModel_of_Base Suc)
       \<lparr>Base = Suc, get = Some (ModelParameters [(''W'', Parameter 1)] [])\<rparr>
     = Inr \<lparr>Base = \<lambda>x. Suc (Suc x),
            get = Some (ModelParameters [] [(''g'', ModelParameters [(''W'', Parameter 1)] [])])\<rparr>
   \<and> TModel_Nested
       \<lparr>Base = \<lambda>x. Suc (Suc x),
        get = Some (ModelParameters [] [(''g'', ModelParameters [(''W'', Parameter 1)] [])])\<rparr> ''f''
     = Inl (LogicError ''no such captured model: f'')
   \<and> Parameters (TModel_of_Base Suc) = Inl NullDereference"
  by (simp add: operator_shift_def TModel_nested_def new_ModelParameters_def map_init_def
      TModel_Nested_def Nested_def map_find_def Parameters_def TModel_of_Base_def
      TModel_parameters_def)

section \<open>Logging\<close>

text \<open>
  C8. A registry with the parameter \<open>V\<close> of its own and a nested registry \<open>a\<close>, in
  which a registry \<open>b\<close> is nested that has the parameter \<open>W\<close>. \<open>LogParameters\<close> writes
  the nested parameter first and then \<open>V\<close>; the name it prints for \<open>W\<close>, and records as
  its debug name, is \<open>b.W\<close>: the recursive call gets the name of the nested entry as
  its prefix, without the prefix of the caller, so the path \<open>a.b.W\<close> is not built.
\<close>

theorem LogParameters_drops_outer_names:
  "LogParameters (\<lambda>lib p. ''Parameter'') DebugUpdateName
     (ModelParameters [(''V'', Parameter 1)]
        [(''a'', ModelParameters [] [(''b'', ModelParameters [(''W'', Parameter 0)] [])])])
     '''' (Map.empty, [])
   = ([Parameter 0 \<mapsto> ''b.W'', Parameter 1 \<mapsto> ''V''],
      [fprintf_line ''b.W'' ''Parameter'', fprintf_line ''V'' ''Parameter''])"
  by (simp add: DebugUpdateName_def Let_def)

end
